theory Spec2Isabelle
  imports Main "HOL-Library.Sublist" "HOL-Library.Word"
begin

section \<open>Data Loader\<close>

text \<open>
  An uploaded file has a name and a byte content. The two table parsers
  (\<^verbatim>\<open>pd.read_csv\<close> and \<^verbatim>\<open>pd.read_excel\<close>, the latter called with no sheet argument,
  so it reads the first sheet) are library code: they are parameters of the model. A
  parser either returns a table (\<open>Inr\<close>) or raises an \<^verbatim>\<open>Exception\<close> whose
  \<^verbatim>\<open>str(e)\<close> is the carried text (\<open>Inl\<close>).
\<close>

record uploaded_file =
  name :: string
  content :: "8 word list"

text \<open>
  The body of the \<^verbatim>\<open>try\<close> block of \<^verbatim>\<open>load_data\<close>: the value it returns or the
  exception it raises, together with the messages passed to \<^verbatim>\<open>st.error\<close>.
  \<^verbatim>\<open>str.endswith\<close> is \<^const>\<open>suffix\<close>.
\<close>

definition load_data_try ::
  "(uploaded_file \<Rightarrow> string + 'd) \<Rightarrow> (uploaded_file \<Rightarrow> string + 'd) \<Rightarrow>
   uploaded_file \<Rightarrow> (string + 'd option) \<times> string list" where
  "load_data_try read_csv read_excel f =
     (if suffix ''.csv'' (name f) then
        (case read_csv f of Inl e \<Rightarrow> Inl e | Inr df \<Rightarrow> Inr (Some df), [])
      else if suffix ''.xlsx'' (name f) \<or> suffix ''.xls'' (name f) then
        (case read_excel f of Inl e \<Rightarrow> Inl e | Inr df \<Rightarrow> Inr (Some df), [])
      else
        (Inr None, [''Unsupported file format. Please upload a CSV or Excel file.'']))"

text \<open>
  \<^verbatim>\<open>load_data\<close> with its handler \<^verbatim>\<open>except Exception as e\<close>: an exception of the body
  is turned into one more message and the value \<^verbatim>\<open>None\<close>. The first component of the
  result is \<open>Inl\<close> if an exception leaves \<^verbatim>\<open>load_data\<close>.
\<close>

definition load_data ::
  "(uploaded_file \<Rightarrow> string + 'd) \<Rightarrow> (uploaded_file \<Rightarrow> string + 'd) \<Rightarrow>
   uploaded_file \<Rightarrow> (string + 'd option) \<times> string list" where
  "load_data read_csv read_excel f =
     (case load_data_try read_csv read_excel f of
        (Inl e, shown) \<Rightarrow> (Inr None, shown @ [''Error loading file: '' @ e])
      | (Inr r, shown) \<Rightarrow> (Inr r, shown))"

text \<open>
  Upper-case and mixed-case variants of an extension: \<open>v\<close> is a case variant of \<open>e\<close>
  when lower-casing \<open>v\<close> gives \<open>e\<close> and \<open>v\<close> is not \<open>e\<close> itself. Lower-casing is that
  of ASCII letters.
\<close>

definition lower_char :: "char \<Rightarrow> char" where
  "lower_char c =
     (let n = (of_char c :: nat) in if 65 \<le> n \<and> n \<le> 90 then char_of (n + 32) else c)"

definition case_variant :: "string \<Rightarrow> string \<Rightarrow> bool" where
  "case_variant v e \<longleftrightarrow> map lower_char v = e \<and> v \<noteq> e"

definition supported_extensions :: "string list" where
  "supported_extensions = [''.csv'', ''.xlsx'', ''.xls'']"

definition unsupported_outcome :: "(string + 'd option) \<times> string list" where
  "unsupported_outcome =
     (Inr None, [''Unsupported file format. Please upload a CSV or Excel file.''])"


section \<open>Dataset\<close>

text \<open>
  A column (a pandas \<^verbatim>\<open>Series\<close>) has one inferred dtype and a list of cells; a null cell
  (\<^verbatim>\<open>NaN\<close>, \<^verbatim>\<open>None\<close>, \<^verbatim>\<open>NaT\<close>) is \<open>None\<close>. The type of the values is a parameter. A
  dataset (a \<^verbatim>\<open>DataFrame\<close>) is the list of its labelled columns, in column order. The
  parsers give every column its own label (repeated header names are renamed), so the
  labels of a dataset are distinct: this is the hypothesis \<open>distinct (columns df)\<close> of the
  theorems below.
\<close>

datatype dtype =
  Int_dtype | UInt_dtype | Float_dtype | Complex_dtype | Bool_dtype
  | Datetime64_dtype | Datetime64tz_dtype | Timedelta64_dtype
  | Object_dtype | Category_dtype

record 'v series =
  dtype :: dtype
  cells :: "'v option list"

type_synonym 'v dataframe = "(string \<times> 'v series) list"

datatype py_error = KeyError string | ZeroDivisionError | StreamlitAPIException

definition columns :: "'v dataframe \<Rightarrow> string list" where
  "columns df = map fst df"

text \<open>\<^verbatim>\<open>df[col]\<close>: the column labelled \<open>col\<close>, or \<^verbatim>\<open>KeyError\<close>.\<close>

definition getitem :: "'v dataframe \<Rightarrow> string \<Rightarrow> py_error + 'v series" where
  "getitem df col = (case map_of df col of None \<Rightarrow> Inl (KeyError col) | Some s \<Rightarrow> Inr s)"

text \<open>\<^verbatim>\<open>len(df)\<close>: the number of rows.\<close>

definition len :: "'v dataframe \<Rightarrow> nat" where
  "len df = (case df of [] \<Rightarrow> 0 | (_, s) # _ \<Rightarrow> length (cells s))"

text \<open>
  \<^verbatim>\<open>pd.api.types.is_numeric_dtype\<close> holds of integer, floating, complex and boolean
  dtypes; \<^verbatim>\<open>pd.api.types.is_datetime64_any_dtype\<close> of the naive and the timezone-aware
  \<^verbatim>\<open>datetime64\<close> dtypes.
\<close>

definition is_numeric_dtype :: "'v series \<Rightarrow> bool" where
  "is_numeric_dtype s =
     (dtype s \<in> {Int_dtype, UInt_dtype, Float_dtype, Complex_dtype, Bool_dtype})"

definition is_datetime64_any_dtype :: "'v series \<Rightarrow> bool" where
  "is_datetime64_any_dtype s = (dtype s \<in> {Datetime64_dtype, Datetime64tz_dtype})"

fun dropna :: "'v option list \<Rightarrow> 'v list" where
  "dropna [] = []"
| "dropna (None # xs) = dropna xs"
| "dropna (Some v # xs) = v # dropna xs"

text \<open>\<^verbatim>\<open>Series.nunique()\<close>: the number of distinct non-null values.\<close>

definition nunique :: "'v series \<Rightarrow> nat" where
  "nunique s = length (remdups (dropna (cells s)))"


section \<open>Column Classifier\<close>

text \<open>
  The loop of \<^verbatim>\<open>analyze_data\<close> over \<^verbatim>\<open>df.columns\<close>, with its three accumulators
  \<^verbatim>\<open>numeric_cols\<close>, \<^verbatim>\<open>categorical_cols\<close> and \<^verbatim>\<open>datetime_cols\<close>, returned in that order.
\<close>

fun analyze_loop ::
  "'v dataframe \<Rightarrow> string list \<Rightarrow> string list \<times> string list \<times> string list \<Rightarrow>
   py_error + (string list \<times> string list \<times> string list)" where
  "analyze_loop df [] acc = Inr acc"
| "analyze_loop df (col # cols) (numeric_cols, categorical_cols, datetime_cols) =
     (case getitem df col of
        Inl e \<Rightarrow> Inl e
      | Inr s \<Rightarrow>
          if is_numeric_dtype s then
            analyze_loop df cols (numeric_cols @ [col], categorical_cols, datetime_cols)
          else if is_datetime64_any_dtype s then
            analyze_loop df cols (numeric_cols, categorical_cols, datetime_cols @ [col])
          else if nunique s \<le> 20 then
            analyze_loop df cols (numeric_cols, categorical_cols @ [col], datetime_cols)
          else
            analyze_loop df cols (numeric_cols, categorical_cols, datetime_cols))"

definition analyze_data ::
  "'v dataframe \<Rightarrow> py_error + (string list \<times> string list \<times> string list)" where
  "analyze_data df = analyze_loop df (columns df) ([], [], [])"


section \<open>Visualization Generator\<close>

text \<open>
  A Plot Artifact is the triple \<^verbatim>\<open>(plot_type, fig, label)\<close> appended to \<^verbatim>\<open>plots\<close>. The
  kind tag is one of six string constants of the source. The figure is described by the
  plotting call that draws it, with the arguments the source passes, and by the title
  and axis labels the source sets; pixels are not modelled.
\<close>

datatype plot_kind = Histogram | Boxplot | Barplot | Heatmap | Pairplot | Timeseries


datatype axis = Axis_x | Axis_y

datatype 'v chart =
    Sns_histplot "'v series" bool
      \<comment> \<open>\<^verbatim>\<open>sns.histplot(df[col], kde=True)\<close>: the data and the \<^verbatim>\<open>kde\<close> flag\<close>
  | Sns_boxplot axis "'v series"
      \<comment> \<open>\<^verbatim>\<open>sns.boxplot(x=df[col])\<close>\<close>
  | Sns_countplot axis "'v series" "'v list"
      \<comment> \<open>\<^verbatim>\<open>sns.countplot(y=col, data=df, order=...)\<close>: the axis of the variable, the
          column \<^verbatim>\<open>df[col]\<close> and the order of the bars\<close>
  | Sns_heatmap "'v dataframe"
      \<comment> \<open>\<^verbatim>\<open>sns.heatmap(df[numeric_cols].corr(), annot=True, cmap='coolwarm')\<close>\<close>
  | Sns_pairplot "'v dataframe" nat
      \<comment> \<open>\<^verbatim>\<open>sns.pairplot(df[numeric_cols].sample(n))\<close>: the columns and the sample size\<close>
  | Series_plot "'v series" "'v series"
      \<comment> \<open>\<^verbatim>\<open>df.set_index(date_col)[num_col].plot()\<close>: the index and the values\<close>

record 'v figure =
  chart :: "'v chart"
  title :: "string option"
  xlabel :: "string option"
  ylabel :: "string option"

type_synonym 'v artifact = "plot_kind \<times> 'v figure \<times> string"

text \<open>
  \<^verbatim>\<open>Series.value_counts()\<close>: the distinct non-null values with their numbers of
  occurrences, sorted by descending count; \<^verbatim>\<open>.index\<close> is the list of the values.
\<close>

definition value_counts :: "'v series \<Rightarrow> ('v \<times> nat) list" where
  "value_counts s =
     (let vs = dropna (cells s)
      in sort_key (\<lambda>(v, n). - int n) (map (\<lambda>v. (v, count_list vs v)) (remdups vs)))"

definition value_counts_index :: "'v series \<Rightarrow> 'v list" where
  "value_counts_index s = map fst (value_counts s)"

text \<open>\<^verbatim>\<open>df[cols]\<close> with a list of labels: the sub-table of these columns.\<close>

fun getitems :: "'v dataframe \<Rightarrow> string list \<Rightarrow> py_error + 'v dataframe" where
  "getitems df [] = Inr []"
| "getitems df (col # cols) =
     (case getitem df col of
        Inl e \<Rightarrow> Inl e
      | Inr s \<Rightarrow> (case getitems df cols of Inl e \<Rightarrow> Inl e | Inr sub \<Rightarrow> Inr ((col, s) # sub)))"

text \<open>
  \<^verbatim>\<open>df.set_index(key)\<close>: the column \<open>key\<close> becomes the index and leaves the columns.
\<close>

definition set_index :: "'v dataframe \<Rightarrow> string \<Rightarrow> py_error + ('v series \<times> 'v dataframe)" where
  "set_index df key =
     (case getitem df key of
        Inl e \<Rightarrow> Inl e
      | Inr idx \<Rightarrow> Inr (idx, filter (\<lambda>(col, s). col \<noteq> key) df))"

text \<open>
  The state of \<^verbatim>\<open>generate_visualizations\<close>: the list \<^verbatim>\<open>plots\<close>, the counter
  \<^verbatim>\<open>plot_counter\<close>, and the fractions given to the progress bar so far, each as the pair
  (numerator, denominator).
\<close>

record 'v gen_state =
  plots :: "'v artifact list"
  plot_counter :: nat
  progress :: "(nat \<times> nat) list"

text \<open>
  The three lines after each plot: \<^verbatim>\<open>plot_counter += 1\<close>, then
  \<^verbatim>\<open>progress_bar.progress(plot_counter/total_plots)\<close>, then the status text with the same
  two numbers. The division raises \<^verbatim>\<open>ZeroDivisionError\<close> when \<^verbatim>\<open>total_plots\<close> is 0, and
  the progress bar raises \<^verbatim>\<open>StreamlitAPIException\<close> for a value above 1.
\<close>

definition report_progress :: "nat \<Rightarrow> 'v gen_state \<Rightarrow> py_error + 'v gen_state" where
  "report_progress total_plots st =
     (let st' = st\<lparr>plot_counter := plot_counter st + 1\<rparr>
      in if total_plots = 0 then Inl ZeroDivisionError
         else if total_plots < plot_counter st' then Inl StreamlitAPIException
         else Inr (st'\<lparr>progress := progress st' @ [(plot_counter st', total_plots)]\<rparr>))"

definition append_plot :: "'v artifact \<Rightarrow> 'v gen_state \<Rightarrow> 'v gen_state" where
  "append_plot a st = st\<lparr>plots := plots st @ [a]\<rparr>"

text \<open>A \<^verbatim>\<open>for\<close> loop whose body may raise.\<close>

fun for_each :: "('a \<Rightarrow> 's \<Rightarrow> py_error + 's) \<Rightarrow> 'a list \<Rightarrow> 's \<Rightarrow> py_error + 's" where
  "for_each body [] st = Inr st"
| "for_each body (x # xs) st =
     (case body x st of Inl e \<Rightarrow> Inl e | Inr st' \<Rightarrow> for_each body xs st')"

text \<open>The figures, as the source builds them.\<close>

definition histogram_fig :: "string \<Rightarrow> 'v series \<Rightarrow> 'v figure" where
  "histogram_fig col s =
     \<lparr>chart = Sns_histplot s True, title = Some (''Distribution of '' @ col),
      xlabel = Some col, ylabel = None\<rparr>"

definition boxplot_fig :: "string \<Rightarrow> 'v series \<Rightarrow> 'v figure" where
  "boxplot_fig col s =
     \<lparr>chart = Sns_boxplot Axis_x s, title = Some (''Boxplot of '' @ col),
      xlabel = None, ylabel = None\<rparr>"

definition barplot_fig :: "string \<Rightarrow> 'v series \<Rightarrow> 'v figure" where
  "barplot_fig col s =
     \<lparr>chart = Sns_countplot Axis_y s (value_counts_index s),
      title = Some (''Distribution of '' @ col), xlabel = Some ''Count'', ylabel = None\<rparr>"

definition heatmap_fig :: "'v dataframe \<Rightarrow> 'v figure" where
  "heatmap_fig sub =
     \<lparr>chart = Sns_heatmap sub, title = Some ''Feature Correlation Matrix'',
      xlabel = None, ylabel = None\<rparr>"

definition pairplot_fig :: "'v dataframe \<Rightarrow> nat \<Rightarrow> 'v figure" where
  "pairplot_fig sub n =
     \<lparr>chart = Sns_pairplot sub n, title = None, xlabel = None, ylabel = None\<rparr>"

definition timeseries_fig :: "string \<Rightarrow> 'v series \<Rightarrow> 'v series \<Rightarrow> 'v figure" where
  "timeseries_fig num_col idx vals =
     \<lparr>chart = Series_plot idx vals, title = Some (num_col @ '' over Time''),
      xlabel = None, ylabel = Some num_col\<rparr>"

text \<open>The bodies of the loops and of the two conditionals.\<close>

definition histogram_step ::
  "'v dataframe \<Rightarrow> nat \<Rightarrow> string \<Rightarrow> 'v gen_state \<Rightarrow> py_error + 'v gen_state" where
  "histogram_step df total_plots col st =
     (case getitem df col of
        Inl e \<Rightarrow> Inl e
      | Inr s \<Rightarrow>
          report_progress total_plots (append_plot (Histogram, histogram_fig col s, col) st))"

definition boxplot_step ::
  "'v dataframe \<Rightarrow> nat \<Rightarrow> string \<Rightarrow> 'v gen_state \<Rightarrow> py_error + 'v gen_state" where
  "boxplot_step df total_plots col st =
     (case getitem df col of
        Inl e \<Rightarrow> Inl e
      | Inr s \<Rightarrow>
          report_progress total_plots (append_plot (Boxplot, boxplot_fig col s, col) st))"

definition barplot_step ::
  "'v dataframe \<Rightarrow> nat \<Rightarrow> string \<Rightarrow> 'v gen_state \<Rightarrow> py_error + 'v gen_state" where
  "barplot_step df total_plots col st =
     (case getitem df col of
        Inl e \<Rightarrow> Inl e
      | Inr s \<Rightarrow>
          report_progress total_plots (append_plot (Barplot, barplot_fig col s, col) st))"

definition heatmap_step ::
  "'v dataframe \<Rightarrow> nat \<Rightarrow> string list \<Rightarrow> 'v gen_state \<Rightarrow> py_error + 'v gen_state" where
  "heatmap_step df total_plots numeric_cols st =
     (case getitems df numeric_cols of
        Inl e \<Rightarrow> Inl e
      | Inr sub \<Rightarrow>
          report_progress total_plots
            (append_plot (Heatmap, heatmap_fig sub, ''Correlation'') st))"

definition pairplot_step ::
  "'v dataframe \<Rightarrow> nat \<Rightarrow> string list \<Rightarrow> 'v gen_state \<Rightarrow> py_error + 'v gen_state" where
  "pairplot_step df total_plots numeric_cols st =
     (case getitems df numeric_cols of
        Inl e \<Rightarrow> Inl e
      | Inr sub \<Rightarrow>
          report_progress total_plots
            (append_plot
              (Pairplot, pairplot_fig sub (min 500 (len df)), ''Pairwise Relationships'') st))"

definition timeseries_step ::
  "'v dataframe \<Rightarrow> nat \<Rightarrow> string list \<Rightarrow> string \<Rightarrow> 'v gen_state \<Rightarrow> py_error + 'v gen_state" where
  "timeseries_step df total_plots numeric_cols date_col st =
     (case numeric_cols of
        [] \<Rightarrow> Inr st
      | num_col # _ \<Rightarrow>
          (case set_index df date_col of
             Inl e \<Rightarrow> Inl e
           | Inr (idx, indexed) \<Rightarrow>
               (case getitem indexed num_col of
                  Inl e \<Rightarrow> Inl e
                | Inr vals \<Rightarrow>
                    report_progress total_plots
                      (append_plot
                        (Timeseries, timeseries_fig num_col idx vals,
                         date_col @ '' & '' @ num_col) st))))"

text \<open>The total computed before generation (lines 90 to 92).\<close>

definition total_plots :: "string list \<Rightarrow> string list \<Rightarrow> string list \<Rightarrow> nat" where
  "total_plots numeric_cols categorical_cols datetime_cols =
     (let total = length numeric_cols * 2 + length categorical_cols
                  + length datetime_cols * min 1 (length numeric_cols)
      in if length numeric_cols > 1 then total + 2 else total)"

text \<open>
  \<^verbatim>\<open>generate_visualizations\<close> returns \<^verbatim>\<open>plots\<close>; the model returns with it the fractions
  reported to the progress bar, or the exception that ends the run. The creation of the
  progress bar at 0 and of the status text, and their clearing at the end, divide nothing
  and add no plot; they are left out. A failure inside a plotting call is not modelled.
\<close>

definition generate_visualizations ::
  "'v dataframe \<Rightarrow> string list \<Rightarrow> string list \<Rightarrow> string list \<Rightarrow>
   py_error + ('v artifact list \<times> (nat \<times> nat) list)" where
  "generate_visualizations df numeric_cols categorical_cols datetime_cols =
     (let total = total_plots numeric_cols categorical_cols datetime_cols;
          st0 = \<lparr>plots = [], plot_counter = 0, progress = []\<rparr>
      in case for_each (histogram_step df total) numeric_cols st0 of
           Inl e \<Rightarrow> Inl e
         | Inr st1 \<Rightarrow>
      (case for_each (boxplot_step df total) numeric_cols st1 of
           Inl e \<Rightarrow> Inl e
         | Inr st2 \<Rightarrow>
      (case for_each (barplot_step df total) categorical_cols st2 of
           Inl e \<Rightarrow> Inl e
         | Inr st3 \<Rightarrow>
      (case (if length numeric_cols > 1 then heatmap_step df total numeric_cols st3
             else Inr st3) of
           Inl e \<Rightarrow> Inl e
         | Inr st4 \<Rightarrow>
      (case (if length numeric_cols > 1 then pairplot_step df total numeric_cols st4
             else Inr st4) of
           Inl e \<Rightarrow> Inl e
         | Inr st5 \<Rightarrow>
      (case for_each (timeseries_step df total numeric_cols) datetime_cols st5 of
           Inl e \<Rightarrow> Inl e
         | Inr st6 \<Rightarrow> Inr (plots st6, progress st6)))))))"


section \<open>Archive Builder\<close>
















section \<open>Expected results\<close>

text \<open>
  The definitions of this section are not part of the program: they name the results
  that the theorems compare the program with. \<open>column df col\<close> is the column labelled
  \<open>col\<close> of a dataset that has one; \<open>numeric_of\<close>, \<open>datetime_of\<close> and \<open>categorical_of\<close> are
  the labels of the columns of each class, in column order; \<open>expected_plots\<close> is the Plot
  Collection in generation order; \<open>emitted\<close> is the state after a run of plots has been
  appended and reported.
\<close>

definition column :: "'v dataframe \<Rightarrow> string \<Rightarrow> 'v series" where
  "column df col = the (map_of df col)"

definition numeric_of :: "'v dataframe \<Rightarrow> string list" where
  "numeric_of df = map fst (filter (\<lambda>(col, s). is_numeric_dtype s) df)"

definition datetime_of :: "'v dataframe \<Rightarrow> string list" where
  "datetime_of df =
     map fst (filter (\<lambda>(col, s). \<not> is_numeric_dtype s \<and> is_datetime64_any_dtype s) df)"

definition categorical_of :: "'v dataframe \<Rightarrow> string list" where
  "categorical_of df =
     map fst (filter (\<lambda>(col, s). \<not> is_numeric_dtype s \<and> \<not> is_datetime64_any_dtype s
                                  \<and> nunique s \<le> 20) df)"








text \<open>Every fraction reported to the progress bar has a denominator of at least 1.\<close>

definition denominators_positive :: "(nat \<times> nat) list \<Rightarrow> bool" where
  "denominators_positive log \<longleftrightarrow> (\<forall>(i, t) \<in> set log. 1 \<le> t)"


section \<open>Sample data\<close>

text \<open>A sample dataset: a numeric, a text and a datetime column.\<close>

definition demo :: "string dataframe" where
  "demo =
     [(''age'', \<lparr>dtype = Int_dtype, cells = [Some ''31'', Some ''45'', None]\<rparr>),
      (''city'', \<lparr>dtype = Object_dtype, cells = [Some ''Oslo'', Some ''Rome'', Some ''Rome'']\<rparr>),
      (''signup_date'',
       \<lparr>dtype = Datetime64_dtype, cells = [Some ''2024-01-01'', None, Some ''2024-01-03'']\<rparr>)]"



definition wide :: "nat dataframe" where
  "wide =
     [(''score'', \<lparr>dtype = Float_dtype, cells = [Some 7, None, Some 9]\<rparr>),
      (''comment'', \<lparr>dtype = Object_dtype, cells = map Some [0..<21]\<rparr>)]"




section \<open>Properties of the Data Loader\<close>

lemma csv_excludes_excel:
  assumes c: "suffix ''.csv'' nm"
  shows "\<not> (suffix ''.xlsx'' nm \<or> suffix ''.xls'' nm)"
proof -
  have "\<not> suffix ''.xlsx'' nm"
  proof
    assume "suffix ''.xlsx'' nm"
    from suffix_same_cases [OF c this] show False by (simp add: suffix_Cons)
  qed
  moreover have "\<not> suffix ''.xls'' nm"
  proof
    assume "suffix ''.xls'' nm"
    from suffix_same_cases [OF c this] show False by (simp add: suffix_Cons)
  qed
  ultimately show ?thesis by blast
qed

lemma variant_not_supported:
  assumes v: "case_variant v e" and e: "e \<in> set supported_extensions"
    and x: "x \<in> set supported_extensions" and sv: "suffix v nm" and sx: "suffix x nm"
  shows False
proof -
  have lx: "map lower_char x = x"
    using x by (auto simp: supported_extensions_def lower_char_def)
  have le: "map lower_char v = e" and ne: "v \<noteq> e"
    using v by (auto simp: case_variant_def)
  from suffix_same_cases [OF sv sx] have "suffix e x \<or> suffix x e"
    using map_mono_suffix [of v x lower_char] map_mono_suffix [of x v lower_char] lx le
    by auto
  then have xe: "x = e"
    using e x by (auto simp: supported_extensions_def suffix_Cons)
  then have "length v = length x"
    using le by auto
  with suffix_same_cases [OF sv sx] have "v = x"
    by (auto simp: suffix_def)
  with xe ne show False by simp
qed

text \<open>
  Claim C6. \<^verbatim>\<open>load_data\<close> dispatches on the suffix of the file name: a name ending in
  \<^verbatim>\<open>.csv\<close> is given to the CSV parser, a name ending in \<^verbatim>\<open>.xlsx\<close> or \<^verbatim>\<open>.xls\<close> to the
  spreadsheet parser, and the parsed table is returned with nothing shown. When the parser
  raises, \<^verbatim>\<open>None\<close> is returned and one message ending in the exception's text is shown.
  Any other name shows the unsupported-format message and returns \<^verbatim>\<open>None\<close>. In no case
  does an exception leave \<^verbatim>\<open>load_data\<close>.
\<close>

theorem load_data_dispatch:
  "(suffix ''.csv'' (name f) \<longrightarrow>
      load_data read_csv read_excel f =
        (case read_csv f of
           Inr df \<Rightarrow> (Inr (Some df), [])
         | Inl e \<Rightarrow> (Inr None, [''Error loading file: '' @ e])))
   \<and> (suffix ''.xlsx'' (name f) \<or> suffix ''.xls'' (name f) \<longrightarrow>
      load_data read_csv read_excel f =
        (case read_excel f of
           Inr df \<Rightarrow> (Inr (Some df), [])
         | Inl e \<Rightarrow> (Inr None, [''Error loading file: '' @ e])))
   \<and> (\<not> suffix ''.csv'' (name f) \<and> \<not> suffix ''.xlsx'' (name f) \<and> \<not> suffix ''.xls'' (name f) \<longrightarrow>
      load_data read_csv read_excel f =
        (Inr None, [''Unsupported file format. Please upload a CSV or Excel file.'']))
   \<and> (\<exists>r. fst (load_data read_csv read_excel f) = Inr r)"
proof (intro conjI impI)
  assume "suffix ''.csv'' (name f)"
  then show "load_data read_csv read_excel f =
    (case read_csv f of Inr df \<Rightarrow> (Inr (Some df), [])
     | Inl e \<Rightarrow> (Inr None, [''Error loading file: '' @ e]))"
    by (simp add: load_data_def load_data_try_def split: sum.splits)
next
  assume x: "suffix ''.xlsx'' (name f) \<or> suffix ''.xls'' (name f)"
  with csv_excludes_excel [of "name f"] have "\<not> suffix ''.csv'' (name f)"
    by blast
  with x show "load_data read_csv read_excel f =
    (case read_excel f of Inr df \<Rightarrow> (Inr (Some df), [])
     | Inl e \<Rightarrow> (Inr None, [''Error loading file: '' @ e]))"
    by (simp add: load_data_def load_data_try_def split: sum.splits)
next
  assume "\<not> suffix ''.csv'' (name f) \<and> \<not> suffix ''.xlsx'' (name f) \<and> \<not> suffix ''.xls'' (name f)"
  then show "load_data read_csv read_excel f =
    (Inr None, [''Unsupported file format. Please upload a CSV or Excel file.''])"
    by (simp add: load_data_def load_data_try_def)
next
  show "\<exists>r. fst (load_data read_csv read_excel f) = Inr r"
    by (simp add: load_data_def load_data_try_def split: sum.splits prod.splits)
qed

theorem load_data_dispatch_witness:
  "suffix ''.csv'' (name \<lparr>name = ''sales.csv'', content = [1, 2, 3]\<rparr>)
   \<and> load_data (\<lambda>f. Inr (length (content f))) (\<lambda>f. Inl ''File is not a zip file'')
        \<lparr>name = ''sales.csv'', content = [1, 2, 3]\<rparr> = (Inr (Some 3), [])
   \<and> (suffix ''.xlsx'' (name \<lparr>name = ''sales.xlsx'', content = [1, 2, 3]\<rparr>)
        \<or> suffix ''.xls'' (name \<lparr>name = ''sales.xlsx'', content = [1, 2, 3]\<rparr>))
   \<and> load_data (\<lambda>f. Inr (length (content f))) (\<lambda>f. Inl ''File is not a zip file'')
        \<lparr>name = ''sales.xlsx'', content = [1, 2, 3]\<rparr>
       = (Inr None, [''Error loading file: File is not a zip file''])
   \<and> \<not> suffix ''.csv'' (name \<lparr>name = ''data.txt'', content = []\<rparr>)
   \<and> \<not> suffix ''.xlsx'' (name \<lparr>name = ''data.txt'', content = []\<rparr>)
   \<and> \<not> suffix ''.xls'' (name \<lparr>name = ''data.txt'', content = []\<rparr>)
   \<and> load_data (\<lambda>f. Inr (length (content f))) (\<lambda>f. Inl ''File is not a zip file'')
        \<lparr>name = ''data.txt'', content = []\<rparr>
       = (Inr None, [''Unsupported file format. Please upload a CSV or Excel file.''])"
  using
    load_data_dispatch [of "\<lparr>name = ''sales.csv'', content = [1, 2, 3]\<rparr>"
      "\<lambda>f. Inr (length (content f))" "\<lambda>f. Inl ''File is not a zip file''"]
    load_data_dispatch [of "\<lparr>name = ''sales.xlsx'', content = [1, 2, 3]\<rparr>"
      "\<lambda>f. Inr (length (content f))" "\<lambda>f. Inl ''File is not a zip file''"]
    load_data_dispatch [of "\<lparr>name = ''data.txt'', content = []\<rparr>"
      "\<lambda>f. Inr (length (content f))" "\<lambda>f. Inl ''File is not a zip file''"]
  by (simp add: suffix_Cons)

text \<open>
  Claim C9. The dispatch is case-sensitive: when the file name ends in an upper-case or
  mixed-case variant of a supported extension, \<^verbatim>\<open>load_data\<close> takes the unsupported-format
  branch, whatever the parsers would do, and returns \<^verbatim>\<open>None\<close>.
\<close>

theorem load_data_case_sensitive:
  assumes "case_variant v e" and "e \<in> set supported_extensions" and "suffix v (name f)"
  shows "load_data read_csv read_excel f = unsupported_outcome"
proof -
  have "\<not> suffix x (name f)" if "x \<in> set supported_extensions" for x
    using variant_not_supported [OF assms(1) assms(2) that assms(3)] by blast
  then have "\<not> suffix ''.csv'' (name f)" "\<not> suffix ''.xlsx'' (name f)"
    "\<not> suffix ''.xls'' (name f)"
    by (simp_all add: supported_extensions_def)
  then show ?thesis
    by (simp add: load_data_def load_data_try_def unsupported_outcome_def)
qed

theorem load_data_case_sensitive_witness:
  "case_variant ''.Xlsx'' ''.xlsx'' \<and> ''.xlsx'' \<in> set supported_extensions
   \<and> suffix ''.Xlsx'' (name \<lparr>name = ''report.Xlsx'', content = [80, 75]\<rparr>)
   \<and> load_data (\<lambda>f. Inr (length (content f))) (\<lambda>f. Inr 0)
        \<lparr>name = ''report.Xlsx'', content = [80, 75]\<rparr>
       = (Inr None, [''Unsupported file format. Please upload a CSV or Excel file.''])"
proof -
  have v: "case_variant ''.Xlsx'' ''.xlsx''"
    by code_simp
  have e: "''.xlsx'' \<in> set supported_extensions"
    by (simp add: supported_extensions_def)
  have s: "suffix ''.Xlsx'' (name \<lparr>name = ''report.Xlsx'', content = [80, 75]\<rparr>)"
    by (simp add: suffix_Cons)
  from load_data_case_sensitive [OF v e s, of "\<lambda>f. Inr (length (content f))" "\<lambda>f. Inr 0"]
  show ?thesis
    using v e s by (simp add: unsupported_outcome_def)
qed


section \<open>Properties of the Column Classifier\<close>

lemma getitem_member:
  "distinct (map fst df) \<Longrightarrow> (col, s) \<in> set df \<Longrightarrow> getitem df col = Inr s"
  by (simp add: getitem_def)

lemma analyze_loop_eq:
  assumes "distinct (map fst df)" and "set ps \<subseteq> set df"
  shows "analyze_loop df (map fst ps) (a, b, c) = Inr
    (a @ map fst (filter (\<lambda>(col, s). is_numeric_dtype s) ps),
     b @ map fst (filter (\<lambda>(col, s). \<not> is_numeric_dtype s \<and> \<not> is_datetime64_any_dtype s
            \<and> nunique s \<le> 20) ps),
     c @ map fst (filter (\<lambda>(col, s). \<not> is_numeric_dtype s \<and> is_datetime64_any_dtype s) ps))"
  using assms(2)
proof (induction ps arbitrary: a b c)
  case Nil
  then show ?case by simp
next
  case (Cons p ps)
  obtain col s where p: "p = (col, s)" by (cases p)
  with Cons.prems have "getitem df col = Inr s"
    using getitem_member [OF assms(1)] by simp
  with Cons p show ?case by simp
qed

lemma analyze_data_eq:
  assumes "distinct (columns df)"
  shows "analyze_data df = Inr (numeric_of df, categorical_of df, datetime_of df)"
  using analyze_loop_eq [of df df "[]" "[]" "[]"] assms
  by (simp add: analyze_data_def columns_def numeric_of_def categorical_of_def datetime_of_def)

lemma same_label_same_column:
  assumes "distinct (columns df)" and "(col, s) \<in> set df" and "(col, s') \<in> set df"
  shows "s = s'"
  using assms eq_key_imp_eq_value [of df col s s'] by (simp add: columns_def)

lemma numeric_of_iff:
  assumes "distinct (columns df)" and "(col, s) \<in> set df"
  shows "col \<in> set (numeric_of df) \<longleftrightarrow> is_numeric_dtype s"
proof -
  have "col \<in> set (numeric_of df) \<longleftrightarrow> (\<exists>s'. (col, s') \<in> set df \<and> is_numeric_dtype s')"
    unfolding numeric_of_def by force
  also have "\<dots> \<longleftrightarrow> is_numeric_dtype s"
    using same_label_same_column [OF assms] assms(2) by blast
  finally show ?thesis .
qed

lemma datetime_of_iff:
  assumes "distinct (columns df)" and "(col, s) \<in> set df"
  shows "col \<in> set (datetime_of df) \<longleftrightarrow> \<not> is_numeric_dtype s \<and> is_datetime64_any_dtype s"
proof -
  have "col \<in> set (datetime_of df) \<longleftrightarrow>
      (\<exists>s'. (col, s') \<in> set df \<and> \<not> is_numeric_dtype s' \<and> is_datetime64_any_dtype s')"
    unfolding datetime_of_def by force
  also have "\<dots> \<longleftrightarrow> \<not> is_numeric_dtype s \<and> is_datetime64_any_dtype s"
    using same_label_same_column [OF assms] assms(2) by blast
  finally show ?thesis .
qed

lemma categorical_of_iff:
  assumes "distinct (columns df)" and "(col, s) \<in> set df"
  shows "col \<in> set (categorical_of df) \<longleftrightarrow>
    \<not> is_numeric_dtype s \<and> \<not> is_datetime64_any_dtype s \<and> nunique s \<le> 20"
proof -
  have "col \<in> set (categorical_of df) \<longleftrightarrow>
      (\<exists>s'. (col, s') \<in> set df \<and> \<not> is_numeric_dtype s' \<and> \<not> is_datetime64_any_dtype s'
            \<and> nunique s' \<le> 20)"
    unfolding categorical_of_def by force
  also have "\<dots> \<longleftrightarrow> \<not> is_numeric_dtype s \<and> \<not> is_datetime64_any_dtype s \<and> nunique s \<le> 20"
    using same_label_same_column [OF assms] assms(2) by blast
  finally show ?thesis .
qed


lemma classes_distinct:
  assumes "distinct (columns df)"
  shows "distinct (numeric_of df)" "distinct (categorical_of df)" "distinct (datetime_of df)"
  using assms
  by (simp_all add: numeric_of_def categorical_of_def datetime_of_def columns_def
      distinct_map_filter)

lemma classes_disjoint:
  assumes "distinct (columns df)"
  shows "set (numeric_of df) \<inter> set (categorical_of df) = {}"
    "set (numeric_of df) \<inter> set (datetime_of df) = {}"
    "set (categorical_of df) \<inter> set (datetime_of df) = {}"
proof -
  have "False" if "col \<in> set (numeric_of df)" "col \<in> set (categorical_of df)" for col
  proof -
    from that(1) obtain s where s: "(col, s) \<in> set df" by (auto simp: numeric_of_def)
    from that show False
      by (simp add: numeric_of_iff [OF assms s] categorical_of_iff [OF assms s])
  qed
  then show "set (numeric_of df) \<inter> set (categorical_of df) = {}" by blast
  have "False" if "col \<in> set (numeric_of df)" "col \<in> set (datetime_of df)" for col
  proof -
    from that(1) obtain s where s: "(col, s) \<in> set df" by (auto simp: numeric_of_def)
    from that show False
      by (simp add: numeric_of_iff [OF assms s] datetime_of_iff [OF assms s])
  qed
  then show "set (numeric_of df) \<inter> set (datetime_of df) = {}" by blast
  have "False" if "col \<in> set (categorical_of df)" "col \<in> set (datetime_of df)" for col
  proof -
    from that(1) obtain s where s: "(col, s) \<in> set df" by (auto simp: categorical_of_def)
    from that show False
      by (simp add: categorical_of_iff [OF assms s] datetime_of_iff [OF assms s])
  qed
  then show "set (categorical_of df) \<inter> set (datetime_of df) = {}" by blast
qed

text \<open>
  Claim C1. For a dataset with distinct column labels, \<^verbatim>\<open>analyze_data\<close> returns three
  lists: the numeric list holds the columns whose dtype is numeric, the datetime list the
  columns whose dtype is not numeric and is a date/time dtype, the categorical list the
  columns whose dtype is neither and that have at most 20 distinct non-null values; each
  list is in the column order of the dataset, and a column is in a list exactly when it
  meets that list's condition.
\<close>

theorem analyze_data_classifies:
  assumes "distinct (columns df)"
  shows "\<exists>n c d. analyze_data df = Inr (n, c, d)
    \<and> n = map fst (filter (\<lambda>(col, s). is_numeric_dtype s) df)
    \<and> d = map fst (filter (\<lambda>(col, s). \<not> is_numeric_dtype s \<and> is_datetime64_any_dtype s) df)
    \<and> c = map fst (filter (\<lambda>(col, s). \<not> is_numeric_dtype s \<and> \<not> is_datetime64_any_dtype s
                                       \<and> nunique s \<le> 20) df)
    \<and> (\<forall>(col, s) \<in> set df.
          (col \<in> set n \<longleftrightarrow> is_numeric_dtype s)
        \<and> (col \<in> set d \<longleftrightarrow> \<not> is_numeric_dtype s \<and> is_datetime64_any_dtype s)
        \<and> (col \<in> set c \<longleftrightarrow> \<not> is_numeric_dtype s \<and> \<not> is_datetime64_any_dtype s
                                \<and> nunique s \<le> 20))"
proof -
  have "\<forall>(col, s) \<in> set df.
          (col \<in> set (numeric_of df) \<longleftrightarrow> is_numeric_dtype s)
        \<and> (col \<in> set (datetime_of df) \<longleftrightarrow> \<not> is_numeric_dtype s \<and> is_datetime64_any_dtype s)
        \<and> (col \<in> set (categorical_of df) \<longleftrightarrow> \<not> is_numeric_dtype s
              \<and> \<not> is_datetime64_any_dtype s \<and> nunique s \<le> 20)"
    using numeric_of_iff [OF assms] datetime_of_iff [OF assms] categorical_of_iff [OF assms]
    by blast
  then show ?thesis
    using analyze_data_eq [OF assms]
    by (simp add: numeric_of_def datetime_of_def categorical_of_def)
qed

theorem analyze_data_classifies_witness:
  "distinct (columns demo) \<and> analyze_data demo = Inr ([''age''], [''city''], [''signup_date''])"
proof -
  have d: "distinct (columns demo)"
    by (simp add: demo_def columns_def)
  from analyze_data_classifies [OF d] show ?thesis
    using d by (simp add: demo_def is_numeric_dtype_def is_datetime64_any_dtype_def nunique_def)
qed

text \<open>
  Claim C2. For a dataset with distinct column labels, the three lists returned by
  \<^verbatim>\<open>analyze_data\<close> are pairwise disjoint and without repetition, so every column is in at
  most one of them; a column that is neither numeric nor datetime and has more than 20
  distinct non-null values is in none.
\<close>

theorem classes_exclusive:
  assumes "distinct (columns df)" and "analyze_data df = Inr (n, c, d)"
  shows "set n \<inter> set c = {} \<and> set n \<inter> set d = {} \<and> set c \<inter> set d = {}
    \<and> distinct n \<and> distinct c \<and> distinct d
    \<and> (\<forall>(col, s) \<in> set df.
          \<not> is_numeric_dtype s \<and> \<not> is_datetime64_any_dtype s \<and> 20 < nunique s
          \<longrightarrow> col \<notin> set n \<and> col \<notin> set c \<and> col \<notin> set d)"
proof -
  from assms analyze_data_eq [OF assms(1)]
  have eq: "n = numeric_of df" "c = categorical_of df" "d = datetime_of df"
    by simp_all
  have "\<forall>(col, s) \<in> set df.
          \<not> is_numeric_dtype s \<and> \<not> is_datetime64_any_dtype s \<and> 20 < nunique s
          \<longrightarrow> col \<notin> set n \<and> col \<notin> set c \<and> col \<notin> set d"
    unfolding eq
    using numeric_of_iff [OF assms(1)] datetime_of_iff [OF assms(1)]
      categorical_of_iff [OF assms(1)]
    by fastforce
  then show ?thesis
    unfolding eq
    using classes_disjoint [OF assms(1)] classes_distinct [OF assms(1)] by blast
qed

theorem classes_exclusive_witness:
  "distinct (columns wide) \<and> analyze_data wide = Inr ([''score''], [], [])
   \<and> (''comment'', \<lparr>dtype = Object_dtype, cells = map Some [0..<21]\<rparr>) \<in> set wide
   \<and> 20 < nunique \<lparr>dtype = Object_dtype, cells = map Some [0..<21::nat]\<rparr>
   \<and> ''comment'' \<notin> set [''score''] \<and> ''comment'' \<notin> set ([] :: string list)"
proof -
  have d: "distinct (columns wide)"
    by (simp add: wide_def columns_def)
  have a: "analyze_data wide = Inr ([''score''], [], [])"
    by code_simp
  have m: "(''comment'', \<lparr>dtype = Object_dtype, cells = map Some [0..<21]\<rparr>) \<in> set wide"
    by (simp add: wide_def)
  have n: "20 < nunique \<lparr>dtype = Object_dtype, cells = map Some [0..<21::nat]\<rparr>"
    by code_simp
  from classes_exclusive [OF d a] m n d a show ?thesis
    by simp
qed


section \<open>Properties of the Visualization Generator\<close>





























lemma getitem_error: "getitem df col = Inl e \<Longrightarrow> e = KeyError col"
  by (simp add: getitem_def split: option.splits)

lemma getitems_error: "getitems df cols = Inl e \<Longrightarrow> e \<noteq> ZeroDivisionError"
  by (induction cols arbitrary: e) (auto split: sum.splits dest: getitem_error)

lemma report_progress_error:
  "0 < tp \<Longrightarrow> report_progress tp st \<noteq> Inl ZeroDivisionError"
  by (simp add: report_progress_def Let_def)

lemma histogram_step_error:
  "0 < tp \<Longrightarrow> histogram_step df tp col st \<noteq> Inl ZeroDivisionError"
  by (auto simp: histogram_step_def report_progress_error split: sum.splits
      dest: getitem_error)

lemma boxplot_step_error:
  "0 < tp \<Longrightarrow> boxplot_step df tp col st \<noteq> Inl ZeroDivisionError"
  by (auto simp: boxplot_step_def report_progress_error split: sum.splits
      dest: getitem_error)

lemma barplot_step_error:
  "0 < tp \<Longrightarrow> barplot_step df tp col st \<noteq> Inl ZeroDivisionError"
  by (auto simp: barplot_step_def report_progress_error split: sum.splits
      dest: getitem_error)

lemma heatmap_step_error:
  "0 < tp \<Longrightarrow> heatmap_step df tp cols st \<noteq> Inl ZeroDivisionError"
  by (auto simp: heatmap_step_def report_progress_error split: sum.splits
      dest: getitems_error)

lemma pairplot_step_error:
  "0 < tp \<Longrightarrow> pairplot_step df tp cols st \<noteq> Inl ZeroDivisionError"
  by (auto simp: pairplot_step_def report_progress_error split: sum.splits
      dest: getitems_error)

lemma timeseries_step_error:
  "n = [] \<or> 0 < tp \<Longrightarrow> timeseries_step df tp n date_col st \<noteq> Inl ZeroDivisionError"
  by (auto simp: timeseries_step_def set_index_def report_progress_error
      split: sum.splits list.splits prod.splits dest: getitem_error)

lemma for_each_error:
  assumes "\<And>x st. x \<in> set xs \<Longrightarrow> body x st \<noteq> Inl ZeroDivisionError"
  shows "for_each body xs st \<noteq> Inl ZeroDivisionError"
  using assms by (induction xs arbitrary: st) (auto split: sum.splits)

lemma total_plots_positive:
  "n \<noteq> [] \<Longrightarrow> 0 < total_plots n c d"
  "c \<noteq> [] \<Longrightarrow> 0 < total_plots n c d"
  by (cases n; cases c; simp add: total_plots_def Let_def)+

lemma case_sum_error:
  assumes "x \<noteq> Inl ZeroDivisionError" and "\<And>y. f y \<noteq> Inl ZeroDivisionError"
  shows "(case x of Inl e \<Rightarrow> Inl e | Inr y \<Rightarrow> f y) \<noteq> Inl ZeroDivisionError"
  using assms by (cases x) simp_all

lemma generate_visualizations_error:
  "generate_visualizations df n c d \<noteq> Inl ZeroDivisionError"
proof -
  define tp where "tp = total_plots n c d"
  have posn: "0 < tp" if "x \<in> set n" for x
  proof -
    from that have "n \<noteq> []" by auto
    then show ?thesis unfolding tp_def by (rule total_plots_positive)
  qed
  have posc: "0 < tp" if "x \<in> set c" for x
  proof -
    from that have "c \<noteq> []" by auto
    then show ?thesis unfolding tp_def by (rule total_plots_positive)
  qed
  have pos2: "0 < tp" if "1 < length n"
  proof -
    from that have "n \<noteq> []" by auto
    then show ?thesis unfolding tp_def by (rule total_plots_positive)
  qed
  have post: "n = [] \<or> 0 < tp"
    unfolding tp_def by (cases "n = []") (simp_all add: total_plots_positive)
  have h: "for_each (histogram_step df tp) n st \<noteq> Inl ZeroDivisionError" for st
    by (rule for_each_error) (rule histogram_step_error, rule posn)
  have b: "for_each (boxplot_step df tp) n st \<noteq> Inl ZeroDivisionError" for st
    by (rule for_each_error) (rule boxplot_step_error, rule posn)
  have k: "for_each (barplot_step df tp) c st \<noteq> Inl ZeroDivisionError" for st
    by (rule for_each_error) (rule barplot_step_error, rule posc)
  have m: "(if length n > 1 then heatmap_step df tp n st else Inr st)
      \<noteq> Inl ZeroDivisionError" for st
    using pos2 by (simp add: heatmap_step_error)
  have p: "(if length n > 1 then pairplot_step df tp n st else Inr st)
      \<noteq> Inl ZeroDivisionError" for st
    using pos2 by (simp add: pairplot_step_error)
  have t: "for_each (timeseries_step df tp n) d st \<noteq> Inl ZeroDivisionError" for st
    by (rule for_each_error) (rule timeseries_step_error, rule post)
  show ?thesis
    unfolding generate_visualizations_def Let_def tp_def [symmetric]
    by (intro case_sum_error h b k m p t) simp
qed

lemma report_progress_log:
  "report_progress tp st = Inr st' \<Longrightarrow> denominators_positive (progress st)
   \<Longrightarrow> denominators_positive (progress st')"
  by (auto simp: report_progress_def Let_def denominators_positive_def split: if_splits)

lemma append_plot_progress: "progress (append_plot a st) = progress st"
  by (simp add: append_plot_def)

lemma histogram_step_log:
  "histogram_step df tp col st = Inr st' \<Longrightarrow> denominators_positive (progress st)
   \<Longrightarrow> denominators_positive (progress st')"
  by (auto simp: histogram_step_def append_plot_progress split: sum.splits
      dest!: report_progress_log)

lemma boxplot_step_log:
  "boxplot_step df tp col st = Inr st' \<Longrightarrow> denominators_positive (progress st)
   \<Longrightarrow> denominators_positive (progress st')"
  by (auto simp: boxplot_step_def append_plot_progress split: sum.splits
      dest!: report_progress_log)

lemma barplot_step_log:
  "barplot_step df tp col st = Inr st' \<Longrightarrow> denominators_positive (progress st)
   \<Longrightarrow> denominators_positive (progress st')"
  by (auto simp: barplot_step_def append_plot_progress split: sum.splits
      dest!: report_progress_log)

lemma heatmap_step_log:
  "heatmap_step df tp cols st = Inr st' \<Longrightarrow> denominators_positive (progress st)
   \<Longrightarrow> denominators_positive (progress st')"
  by (auto simp: heatmap_step_def append_plot_progress split: sum.splits
      dest!: report_progress_log)

lemma pairplot_step_log:
  "pairplot_step df tp cols st = Inr st' \<Longrightarrow> denominators_positive (progress st)
   \<Longrightarrow> denominators_positive (progress st')"
  by (auto simp: pairplot_step_def append_plot_progress split: sum.splits
      dest!: report_progress_log)

lemma timeseries_step_log:
  "timeseries_step df tp n date_col st = Inr st' \<Longrightarrow> denominators_positive (progress st)
   \<Longrightarrow> denominators_positive (progress st')"
  by (auto simp: timeseries_step_def append_plot_progress
      split: sum.splits list.splits prod.splits dest!: report_progress_log)

lemma for_each_log:
  assumes "\<And>x st st'. body x st = Inr st' \<Longrightarrow> denominators_positive (progress st)
      \<Longrightarrow> denominators_positive (progress st')"
    and "for_each body xs st = Inr st'" and "denominators_positive (progress st)"
  shows "denominators_positive (progress st')"
  using assms(2,3)
proof (induction xs arbitrary: st)
  case Nil
  then show ?case by simp
next
  case (Cons x xs)
  then obtain st1 where 1: "body x st = Inr st1" and 2: "for_each body xs st1 = Inr st'"
    by (auto split: sum.splits)
  from assms(1) [OF 1 Cons.prems(2)] Cons.IH [OF 2] show ?case by simp
qed

lemma generate_visualizations_log:
  assumes "generate_visualizations df n c d = Inr (ps, rs)"
  shows "denominators_positive rs"
proof -
  define tp where "tp = total_plots n c d"
  define st0 :: "'a gen_state" where "st0 = \<lparr>plots = [], plot_counter = 0, progress = []\<rparr>"
  from assms obtain st1 st2 st3 st4 st5 st6 where
    1: "for_each (histogram_step df tp) n st0 = Inr st1" and
    2: "for_each (boxplot_step df tp) n st1 = Inr st2" and
    3: "for_each (barplot_step df tp) c st2 = Inr st3" and
    4: "(if length n > 1 then heatmap_step df tp n st3 else Inr st3) = Inr st4" and
    5: "(if length n > 1 then pairplot_step df tp n st4 else Inr st4) = Inr st5" and
    6: "for_each (timeseries_step df tp n) d st5 = Inr st6" and
    7: "rs = progress st6"
    unfolding generate_visualizations_def Let_def tp_def [symmetric] st0_def [symmetric]
    by (auto split: sum.splits)
  have "denominators_positive (progress st0)"
    by (simp add: st0_def denominators_positive_def)
  from for_each_log [OF histogram_step_log 1 this]
  have "denominators_positive (progress st1)" .
  from for_each_log [OF boxplot_step_log 2 this]
  have "denominators_positive (progress st2)" .
  from for_each_log [OF barplot_step_log 3 this]
  have "denominators_positive (progress st3)" .
  with 4 have "denominators_positive (progress st4)"
    by (auto split: if_splits dest: heatmap_step_log)
  with 5 have "denominators_positive (progress st5)"
    by (auto split: if_splits dest: pairplot_step_log)
  from for_each_log [OF timeseries_step_log 6 this]
  have "denominators_positive (progress st6)" .
  with 7 show ?thesis by simp
qed

text \<open>
  Claim C10. Whatever its arguments, \<^verbatim>\<open>generate_visualizations\<close> never raises
  \<^verbatim>\<open>ZeroDivisionError\<close>; every fraction it reports has a denominator of at least 1; and
  with three empty lists it reports no progress and returns the empty collection.
\<close>

theorem progress_never_divides_by_zero:
  "generate_visualizations df n c d \<noteq> Inl ZeroDivisionError
   \<and> (\<forall>plots log. generate_visualizations df n c d = Inr (plots, log)
        \<longrightarrow> (\<forall>(i, t) \<in> set log. 1 \<le> t))
   \<and> generate_visualizations df [] [] [] = Inr ([], [])"
proof -
  have "generate_visualizations df [] [] [] = Inr ([], [])"
    by (simp add: generate_visualizations_def total_plots_def)
  then show ?thesis
    using generate_visualizations_error [of df n c d] generate_visualizations_log [of df n c d]
    by (auto simp: denominators_positive_def)
qed

theorem progress_never_divides_by_zero_witness:
  "generate_visualizations demo [''age''] [''city''] [''signup_date''] = Inr
     ([(Histogram, histogram_fig ''age'' (column demo ''age''), ''age''),
       (Boxplot, boxplot_fig ''age'' (column demo ''age''), ''age''),
       (Barplot, barplot_fig ''city'' (column demo ''city''), ''city''),
       (Timeseries,
        timeseries_fig ''age'' (column demo ''signup_date'') (column demo ''age''),
        ''signup_date & age'')],
      [(1, 4), (2, 4), (3, 4), (4, 4)])
   \<and> list_all (\<lambda>r. 1 \<le> snd r) [(1, 4), (2, 4), (3, 4), (4, 4 :: nat)]
   \<and> generate_visualizations demo [] [] [] = Inr ([], [])"
proof -
  have g: "generate_visualizations demo [''age''] [''city''] [''signup_date''] = Inr
     ([(Histogram, histogram_fig ''age'' (column demo ''age''), ''age''),
       (Boxplot, boxplot_fig ''age'' (column demo ''age''), ''age''),
       (Barplot, barplot_fig ''city'' (column demo ''city''), ''city''),
       (Timeseries,
        timeseries_fig ''age'' (column demo ''signup_date'') (column demo ''age''),
        ''signup_date & age'')],
      [(1, 4), (2, 4), (3, 4), (4, 4)])"
    by code_simp
  from progress_never_divides_by_zero [of demo "[''age'']" "[''city'']" "[''signup_date'']"] g
  show ?thesis by simp
qed


section \<open>Properties of the Archive Builder\<close>





























end
